theory Spec2Isabelle
  imports Complex_Main
begin

text \<open>
  A shallow embedding of the dashboard linter: the decoders and the flattening of
  \<^verbatim>\<open>lint/lint.go\<close>, and the panel unit rule with its two resolution functions. The
  definitions come first, then the panels used as examples, then the properties.
\<close>

section \<open>Dynamic values and the JSON library\<close>

text \<open>
  The decoders of \<^verbatim>\<open>lint/lint.go\<close> first hand the input bytes to
  \<^verbatim>\<open>json.Unmarshal\<close> and then inspect the dynamic value it produced. A value of
  Go's empty interface after such a call is \<^verbatim>\<open>nil\<close>, a \<^verbatim>\<open>bool\<close>, a
  \<^verbatim>\<open>float64\<close>, a \<^verbatim>\<open>string\<close>, a \<^verbatim>\<open>[]interface{}\<close> or a
  \<^verbatim>\<open>map[string]interface{}\<close>. A finite \<^verbatim>\<open>float64\<close> is a rational number; the
  code never computes with it. A map is an association list read with \<open>map_of\<close>.
\<close>

datatype any =
    ANil
  | ABool bool
  | AFloat64 rat
  | AString string
  | ASlice "any list"
  | AMap "(string \<times> any) list"

text \<open>
  The standard library is not part of the repository. Every call of
  \<^verbatim>\<open>json.Unmarshal(buf, &target)\<close> is a parameter of the model: a function from the
  bytes to the content of the target after the call (the target starts at its zero
  value) and the error the call returned, given by its message.
\<close>

type_synonym json_error = string

type_synonym 'a json_Unmarshal = "string \<Rightarrow> 'a \<times> json_error option"

text \<open>
  Errors of the decoders. \<open>FromJSON\<close> is an error of the library passed on unchanged;
  \<open>InvalidType f v\<close> is \<^verbatim>\<open>fmt.Errorf("invalid type for field '<f>': %v", v)\<close>;
  \<open>Errorf m\<close> is \<^verbatim>\<open>fmt.Errorf(m)\<close> for a constant message.
\<close>

datatype error =
    FromJSON json_error
  | InvalidType string any
  | Errorf string

text \<open>
  Run-time panics: a failed single-value type assertion \<^verbatim>\<open>x.(string)\<close> and an index
  out of range. A method that can panic returns \<open>panic + result\<close>.
\<close>

datatype panic = TypeAssertion | IndexOutOfRange

section \<open>Datasource\<close>

type_synonym Datasource = string

text \<open>
  \<^verbatim>\<open>func (d *Datasource) UnmarshalJSON(buf []byte) error\<close>: the receiver is passed in
  and returned with the error.
\<close>

definition Datasource_UnmarshalJSON ::
  "any json_Unmarshal \<Rightarrow> Datasource \<Rightarrow> string \<Rightarrow> Datasource \<times> error option" where
  "Datasource_UnmarshalJSON unmarshal d buf =
     (case unmarshal buf of
        (raw, Some err) \<Rightarrow> (d, Some (FromJSON err))
      | (raw, None) \<Rightarrow>
          (case raw of
             ANil \<Rightarrow> ('''', None)
           | AString v \<Rightarrow> (v, None)
           | AMap v \<Rightarrow>
               (case map_of v ''uid'' of
                  None \<Rightarrow>
                    (d, Some (Errorf ''invalid type for field 'datasource': missing uid field''))
                | Some uid \<Rightarrow>
                    (case uid of
                       AString uidStr \<Rightarrow> (uidStr, None)
                     | _ \<Rightarrow>
                         (d, Some (Errorf
                            ''invalid type for field 'datasource': invalid uid field type, should be string''))))
           | v \<Rightarrow> (d, Some (InvalidType ''datasource'' v))))"

section \<open>Templates\<close>

text \<open>
  Field names are prefixed with the name of their struct, since HOL record fields share
  one name space. Go's \<^verbatim>\<open>int\<close> fields are only copied, never computed with, and
  are integers here.
\<close>

record TemplateValue =
  TemplateValue_Text :: string
  TemplateValue_Value :: string

record TemplateOption = TemplateValue +
  TemplateOption_Selected :: bool

record Template =
  Template_Name :: string
  Template_Label :: string
  Template_Type :: string
  Template_Query :: string
  Template_Datasource :: Datasource
  Template_Multi :: bool
  Template_AllValue :: string
  Template_Current :: TemplateValue
  Template_Options :: "TemplateOption list"
  Template_Refresh :: int

text \<open>The local struct \<^verbatim>\<open>raw\<close> of \<^verbatim>\<open>Template.UnmarshalJSON\<close>.\<close>

record Template_raw =
  raw_Name :: string
  raw_Label :: string
  raw_Type :: string
  raw_Query :: any
  raw_Datasource :: Datasource
  raw_Multi :: bool
  raw_AllValue :: string
  raw_Current :: TemplateValue
  raw_Options :: "TemplateOption list"
  raw_Refresh :: int

text \<open>
  \<^verbatim>\<open>func (t *Template) UnmarshalJSON(buf []byte) error\<close>. The type switch on
  \<^verbatim>\<open>raw.Query\<close> has a string case, a map case and a default; in the map case
  \<^verbatim>\<open>v["query"].(string)\<close> is a single-value assertion, which panics when the key is
  missing (the lookup yields nil) or its value is not a string.
\<close>

definition Template_UnmarshalJSON ::
  "Template_raw json_Unmarshal \<Rightarrow> Template \<Rightarrow> string \<Rightarrow> panic + Template \<times> error option" where
  "Template_UnmarshalJSON unmarshal t buf =
     (case unmarshal buf of
        (raw, Some err) \<Rightarrow> Inr (t, Some (FromJSON err))
      | (raw, None) \<Rightarrow>
          (let t1 = t\<lparr>Template_Name := raw_Name raw,
                       Template_Label := raw_Label raw,
                       Template_Type := raw_Type raw,
                       Template_Datasource := raw_Datasource raw,
                       Template_Multi := raw_Multi raw,
                       Template_AllValue := raw_AllValue raw,
                       Template_Current := raw_Current raw,
                       Template_Options := raw_Options raw,
                       Template_Refresh := raw_Refresh raw\<rparr>
           in if Template_Type t1 \<noteq> ''adhoc'' \<and> Template_Type t1 \<noteq> ''custom'' then
                (case raw_Query raw of
                   AString v \<Rightarrow> Inr (t1\<lparr>Template_Query := v\<rparr>, None)
                 | AMap v \<Rightarrow>
                     (case map_of v ''query'' of
                        Some (AString q) \<Rightarrow> Inr (t1\<lparr>Template_Query := q\<rparr>, None)
                      | _ \<Rightarrow> Inl TypeAssertion)
                 | v \<Rightarrow> Inr (t1, Some (InvalidType ''query'' v)))
              else Inr (t1, None)))"

text \<open>
  \<^verbatim>\<open>func (t *TemplateValue) UnmarshalJSON(buf []byte) error\<close>. The target of the library
  call is a \<^verbatim>\<open>map[string]interface{}\<close>; a nil map reads like an empty one. Each of
  the two keys is handled by the same switch: \<open>decode_key\<close> is that switch, returning
  the string to store, an error to return, or a panic. In the slice case
  \<^verbatim>\<open>x.([]interface{})[0].(string)\<close> indexes without a length check and asserts
  without a check.
\<close>

definition decode_key :: "string \<Rightarrow> any \<Rightarrow> panic + error + string" where
  "decode_key field x =
     (case x of
        AString s \<Rightarrow> Inr (Inr s)
      | ASlice xs \<Rightarrow>
          (case xs of
             [] \<Rightarrow> Inl IndexOutOfRange
           | y # ys \<Rightarrow> (case y of AString s \<Rightarrow> Inr (Inr s) | _ \<Rightarrow> Inl TypeAssertion))
      | tt \<Rightarrow> Inr (Inl (InvalidType field tt)))"

definition TemplateValue_UnmarshalJSON ::
  "(string \<times> any) list json_Unmarshal \<Rightarrow> TemplateValue \<Rightarrow> string \<Rightarrow>
     panic + TemplateValue \<times> error option" where
  "TemplateValue_UnmarshalJSON unmarshal t buf =
     (case unmarshal buf of
        (raw, Some err) \<Rightarrow> Inr (t, Some (FromJSON err))
      | (raw, None) \<Rightarrow>
          (case (case map_of raw ''text'' of
                   None \<Rightarrow> Inr (Inr t)
                 | Some txt \<Rightarrow>
                     (case decode_key ''text'' txt of
                        Inl p \<Rightarrow> Inl p
                      | Inr (Inl e) \<Rightarrow> Inr (Inl e)
                      | Inr (Inr s) \<Rightarrow> Inr (Inr (t\<lparr>TemplateValue_Text := s\<rparr>)))) of
             Inl p \<Rightarrow> Inl p
           | Inr (Inl e) \<Rightarrow> Inr (t, Some e)
           | Inr (Inr t1) \<Rightarrow>
               (case map_of raw ''value'' of
                  None \<Rightarrow> Inr (t1, None)
                | Some val \<Rightarrow>
                    (case decode_key ''value'' val of
                       Inl p \<Rightarrow> Inl p
                     | Inr (Inl e) \<Rightarrow> Inr (t1, Some e)
                     | Inr (Inr s) \<Rightarrow> Inr (t1\<lparr>TemplateValue_Value := s\<rparr>, None)))))"

section \<open>Field configuration\<close>

text \<open>
  The two source files disagree on the declared type of an override property's value:
  \<^verbatim>\<open>lint/lint.go\<close> declares \<^verbatim>\<open>Value string\<close>, while the unit rule asserts
  \<^verbatim>\<open>o.Value.(string)\<close> and compares \<^verbatim>\<open>o.Value != nil\<close>, which needs an interface
  type. The record takes the value type as a parameter: \<open>string OverrideProperty\<close> for
  the decoder of \<^verbatim>\<open>lint/lint.go\<close>, \<open>any OverrideProperty\<close> for the rule.
\<close>

record 'v OverrideProperty =
  OverrideProperty_Id :: string
  OverrideProperty_Value :: 'v

text \<open>
  \<^verbatim>\<open>func (o *OverrideProperty) UnmarshalJSON(buf []byte) error\<close>. The first call decodes
  into a struct with a string value, the second (only after the first failed) into a
  struct with an int value. Both structs are local; no statement writes to the receiver
  (\<open>ov\<close> here, \<^verbatim>\<open>o\<close> in the source),
  and each of the three paths returns nil.
\<close>

definition OverrideProperty_UnmarshalJSON ::
  "string OverrideProperty json_Unmarshal \<Rightarrow> int OverrideProperty json_Unmarshal \<Rightarrow>
     string OverrideProperty \<Rightarrow> string \<Rightarrow> string OverrideProperty \<times> error option" where
  "OverrideProperty_UnmarshalJSON unmarshal_string unmarshal_int ov buf =
     (case unmarshal_string buf of
        (raw, Some err) \<Rightarrow>
          (case unmarshal_int buf of
             (raw', Some err') \<Rightarrow> (ov, None)
           | (raw', None) \<Rightarrow> (ov, None))
      | (raw, None) \<Rightarrow> (ov, None))"

text \<open>
  The rule reads \<^verbatim>\<open>p.FieldConfig\<close> through a pointer (it tests it against nil), reads
  \<^verbatim>\<open>p.FieldConfig.Defaults.Mappings\<close> and \<^verbatim>\<open>p.Options\<close> as raw JSON and decodes the
  latter into \<^verbatim>\<open>StatOptions\<close>. These declarations are not in \<^verbatim>\<open>lint/lint.go\<close>;
  the model takes the types the rule's code needs. A \<^verbatim>\<open>json.RawMessage\<close> is a byte
  slice that may be nil.
\<close>

type_synonym RawMessage = "string option"

definition bytes :: "RawMessage \<Rightarrow> string" where
  "bytes m = (case m of None \<Rightarrow> [] | Some b \<Rightarrow> b)"

record Defaults =
  Defaults_Unit :: string
  Defaults_Mappings :: RawMessage

record Override =
  Override_OverrideProperties :: "any OverrideProperty list"

record FieldConfig =
  FieldConfig_Defaults :: Defaults
  FieldConfig_Overrides :: "Override list"

record ReduceOptions =
  ReduceOptions_Fields :: string

record StatOptions =
  StatOptions_ReduceOptions :: ReduceOptions

section \<open>Panels, rows and dashboards\<close>

record Target =
  Target_Idx :: int
  Target_Expr :: string
  Target_PanelId :: int
  Target_RefId :: string
  Target_LegendFormat :: string

text \<open>
  A panel holds its child panels, so it is a datatype. Slices are lists: every panel owns
  its targets and its children, as in every dashboard the decoder builds.
\<close>

datatype Panel = Panel
  (Panel_Id: int)
  (Panel_Title: string)
  (Panel_Description: string)
  (Panel_Targets: "Target list")
  (Panel_Datasource: Datasource)
  (Panel_Type: string)
  (Panel_Panels: "Panel list")
  (Panel_FieldConfig: "FieldConfig option")
  (Panel_Options: RawMessage)

record Row =
  Row_Panels :: "Panel list"

record Templating =
  Templating_List :: "Template list"

record Dashboard =
  Dashboard_Title :: string
  Dashboard_Templating :: Templating
  Dashboard_Rows :: "Row list"
  Dashboard_Panels :: "Panel list"

text \<open>
  \<^verbatim>\<open>func (p *Panel) GetPanels() []Panel\<close>: the slice starts as the panel itself, and the
  loop appends the result of each child in turn.
\<close>

fun Panel_GetPanels :: "Panel \<Rightarrow> Panel list" where
  "Panel_GetPanels (Panel i t d ts ds ty ps fc opts) =
     fold (\<lambda>panel panels. panels @ Panel_GetPanels panel) ps [Panel i t d ts ds ty ps fc opts]"

text \<open>\<^verbatim>\<open>func (r *Row) GetPanels() []Panel\<close>: the same loop from the nil slice.\<close>

definition Row_GetPanels :: "Row \<Rightarrow> Panel list" where
  "Row_GetPanels r = fold (\<lambda>panel panels. panels @ Panel_GetPanels panel) (Row_Panels r) []"

text \<open>
  The last loop of \<^verbatim>\<open>Dashboard.GetPanels\<close> runs \<^verbatim>\<open>p[pi].Targets[ti].Idx = ti\<close> for
  every index \<open>ti\<close> of the targets of every panel of the flattened slice.
  \<open>assign_Idx\<close> is the inner loop on one target list, from index \<open>ti\<close> on.
\<close>

fun assign_Idx :: "nat \<Rightarrow> Target list \<Rightarrow> Target list" where
  "assign_Idx ti [] = []"
| "assign_Idx ti (target # targets) =
     target\<lparr>Target_Idx := int ti\<rparr> # assign_Idx (Suc ti) targets"

text \<open>
  Copying a panel copies its slice headers, not the arrays behind them: the copy of a
  panel in the flattened slice shares its target array with the panel inside the
  dashboard and with the copy of that panel inside the \<^verbatim>\<open>Panels\<close> of its parent.
  Every descendant of a flattened panel is itself in the flattened slice, so when the
  loop is over the targets of a returned panel and of every panel nested below it carry
  their positions. \<open>patch_Idx\<close> is a panel after these writes.
\<close>

fun patch_Idx :: "Panel \<Rightarrow> Panel" where
  "patch_Idx (Panel i t d ts ds ty ps fc opts) =
     Panel i t d (assign_Idx 0 ts) ds ty (map patch_Idx ps) fc opts"

text \<open>
  \<^verbatim>\<open>func (d *Dashboard) GetPanels() []Panel\<close>: the panels of the rows in order, then
  the top-level panels, then the index loop.
\<close>

definition Dashboard_GetPanels :: "Dashboard \<Rightarrow> Panel list" where
  "Dashboard_GetPanels d =
     (let p = fold (\<lambda>row p. p @ Row_GetPanels row) (Dashboard_Rows d) [];
          p = fold (\<lambda>panel p. p @ Panel_GetPanels panel) (Dashboard_Panels d) p
      in map patch_Idx p)"

text \<open>
  The pre-order traversal of a panel tree as the specification words it: a panel,
  followed by the traversals of its children from left to right.
\<close>

fun preorder :: "Panel \<Rightarrow> Panel list" where
  "preorder (Panel i t d ts ds ty ps fc opts) =
     Panel i t d ts ds ty ps fc opts # concat (map preorder ps)"

section \<open>Rule results\<close>

datatype Severity = Success | Exclude | Warning | Error | Quiet

text \<open>
  Modelled from the spec: the result type \<^verbatim>\<open>PanelRuleResults\<close> and its method
  \<^verbatim>\<open>AddError\<close> are not among the source files. The specification describes a rule
  result as a diagnostic with the dashboard's identity, the panel's identity, a
  severity and a free-text message, accumulated in order; \<open>AddError\<close> appends one
  result of severity \<open>Error\<close> with the given message.
\<close>

record Result =
  Result_Dashboard :: Dashboard
  Result_Panel :: Panel
  Result_Severity :: Severity
  Result_Message :: string

type_synonym PanelRuleResults = "Result list"

definition AddError :: "Dashboard \<Rightarrow> Panel \<Rightarrow> string \<Rightarrow> PanelRuleResults \<Rightarrow> PanelRuleResults" where
  "AddError d p message r =
     r @ [\<lparr>Result_Dashboard = d, Result_Panel = p, Result_Severity = Error,
           Result_Message = message\<rparr>]"

text \<open>
  Modelled from the spec: the constants naming the panel types the rule looks at are
  declared outside the source files; the specification lists their values.
\<close>

definition panelTypeStat :: string where "panelTypeStat = ''stat''"
definition panelTypeSingleStat :: string where "panelTypeSingleStat = ''singlestat''"
definition panelTypeGraph :: string where "panelTypeGraph = ''graph''"
definition panelTypeTimeTable :: string where "panelTypeTimeTable = ''table-with-time''"
definition panelTypeTimeSeries :: string where "panelTypeTimeSeries = ''timeseries''"
definition panelTypeGauge :: string where "panelTypeGauge = ''gauge''"

section \<open>The unit rule\<close>

text \<open>
  The catalogue of \<^verbatim>\<open>NewPanelUnitsRule\<close>, in the order of the source. Go strings are
  byte strings; the Greek mu and the micro sign of six identifiers are their UTF-8 bytes.
\<close>

definition validUnits :: "string list" where
  "validUnits = [
      ''none'',
      ''string'',
      ''short'', ''percent'', ''percentunit'', ''humidity'', ''dB'', ''hex0x'', ''hex'',
       ''sci'', ''locale'', ''pixel'',
      ''accMS2'', ''accFS2'', ''accG'',
      ''degree'', ''radian'', ''grad'', ''arcmin'', ''arcsec'',
      ''areaM2'', ''areaF2'', ''areaMI2'',
      ''flops'', ''mflops'', ''gflops'', ''tflops'', ''pflops'', ''eflops'', ''zflops'',
       ''yflops'',
      ''ppm'', ''conppb'', ''conngm3'', ''conngNm3'', ''con'' @ [CHR 0xCE, CHR 0xBC] @ ''gm3'',
       ''con'' @ [CHR 0xCE, CHR 0xBC] @ ''gNm3'', ''conmgm3'', ''conmgNm3'', ''congm3'',
       ''congNm3'', ''conmgdL'', ''conmmolL'',
      ''currencyUSD'', ''currencyGBP'', ''currencyEUR'', ''currencyJPY'', ''currencyRUB'',
       ''currencyUAH'', ''currencyBRL'', ''currencyDKK'', ''currencyISK'', ''currencyNOK'',
       ''currencySEK'', ''currencyCZK'', ''currencyCHF'', ''currencyPLN'', ''currencyBTC'',
       ''currencymBTC'', ''currency'' @ [CHR 0xCE, CHR 0xBC] @ ''BTC'', ''currencyZAR'',
       ''currencyINR'', ''currencyKRW'', ''currencyIDR'', ''currencyPHP'', ''currencyVND'',
      ''bytes'', ''decbytes'', ''bits'', ''decbits'', ''kbytes'', ''deckbytes'', ''mbytes'',
       ''decmbytes'', ''gbytes'', ''decgbytes'', ''tbytes'', ''dectbytes'', ''pbytes'',
       ''decpbytes'',
      ''pps'', ''binBps'', ''Bps'', ''binbps'', ''bps'', ''KiBs'', ''Kibits'', ''KBs'',
       ''Kbits'', ''MiBs'', ''Mibits'', ''MBs'', ''Mbits'', ''GiBs'', ''Gibits'', ''GBs'',
       ''Gbits'', ''TiBs'', ''Tibits'', ''TBs'', ''Tbits'', ''PiBs'', ''Pibits'', ''PBs'',
       ''Pbits'',
      ''dateTimeAsIso'', ''dateTimeAsIsoNoDateIfToday'', ''dateTimeAsUS'',
       ''dateTimeAsUSNoDateIfToday'', ''dateTimeAsLocal'',
      ''dateTimeAsLocalNoDateIfToday'', ''dateTimeAsSystem'', ''dateTimeFromNow'',
      ''watt'', ''kwatt'', ''megwatt'', ''gwatt'', ''mwatt'', ''Wm2'', ''voltamp'',
       ''kvoltamp'', ''voltampreact'', ''kvoltampreact'', ''watth'', ''watthperkg'', ''kwatth'',
       ''kwattm'', ''amph'', ''kamph'', ''mamph'', ''joule'', ''ev'', ''amp'', ''kamp'',
       ''mamp'', ''volt'', ''kvolt'', ''mvolt'', ''dBm'', ''ohm'', ''kohm'', ''Mohm'',
       ''farad'', [CHR 0xC2, CHR 0xB5] @ ''farad'', ''nfarad'', ''pfarad'', ''ffarad'',
       ''henry'', ''mhenry'', [CHR 0xC2, CHR 0xB5] @ ''henry'', ''lumens'',
      ''flowgpm'', ''flowcms'', ''flowcfs'', ''flowcfm'', ''litreh'', ''flowlpm'', ''flowmlpm'',
       ''lux'',
      ''forceNm'', ''forcekNm'', ''forceN'', ''forcekN'',
      ''Hs'', ''KHs'', ''MHs'', ''GHs'', ''THs'', ''PHs'', ''EHs'',
      ''massmg'', ''massg'', ''masslb'', ''masskg'', ''masst'',
      ''lengthmm'', ''lengthin'', ''lengthft'', ''lengthm'', ''lengthkm'', ''lengthmi'',
      ''pressurembar'', ''pressurebar'', ''pressurekbar'', ''pressurepa'', ''pressurehpa'',
       ''pressurekpa'', ''pressurehg'', ''pressurepsi'',
      ''radbq'', ''radci'', ''radgy'', ''radrad'', ''radsv'', ''radmsv'', ''radusv'',
       ''radrem'', ''radexpckg'', ''radr'', ''radsvh'', ''radmsvh'', ''radusvh'',
      ''rotrpm'', ''rothz'', ''rotrads'', ''rotdegs'',
      ''celsius'', ''fahrenheit'', ''kelvin'',
      ''hertz'', ''ns'', [CHR 0xC2, CHR 0xB5] @ ''s'', ''ms'', ''s'', ''m'', ''h'', ''d'',
       ''dtdurationms'', ''dtdurations'', ''dthms'', ''dtdhms'', ''timeticks'', ''clockms'',
       ''clocks'',
      ''cps'', ''ops'', ''reqps'', ''rps'', ''wps'', ''iops'', ''cpm'', ''opm'', ''rpm'',
       ''wpm'', ''mps'', ''mpm'',
      ''velocityms'', ''velocitykmh'', ''velocitymph'', ''velocityknot'',
      ''mlitre'', ''litre'', ''m3'', ''Nm3'', ''dm3'', ''gallons'',
      ''bool'', ''bool_yes_no'', ''bool_on_off'']"

text \<open>The loop \<^verbatim>\<open>for _, u := range validUnits\<close> with its early return.\<close>

fun range_validUnits :: "string list \<Rightarrow> string \<Rightarrow> bool" where
  "range_validUnits [] configuredUnit = False"
| "range_validUnits (u # us) configuredUnit =
     (if u = configuredUnit then True else range_validUnits us configuredUnit)"

definition hasReduceOptionsNonNumericFields :: "ReduceOptions \<Rightarrow> bool" where
  "hasReduceOptionsNonNumericFields reduceOpts = (ReduceOptions_Fields reduceOpts \<noteq> '''')"

text \<open>
  \<^verbatim>\<open>func getConfiguredUnit(p Panel) string\<close>. The inner loop assigns
  \<^verbatim>\<open>configuredUnit = o.Value.(string)\<close> at every property whose id is "unit" and goes
  on; the assertion panics when the value is not a string. The loops carry
  \<^verbatim>\<open>configuredUnit\<close> as an accumulator.
\<close>

fun unit_of_properties :: "any OverrideProperty list \<Rightarrow> string \<Rightarrow> panic + string" where
  "unit_of_properties [] configuredUnit = Inr configuredUnit"
| "unit_of_properties (ovp # ovps) configuredUnit =
     (if OverrideProperty_Id ovp = ''unit'' then
        (case OverrideProperty_Value ovp of
           AString s \<Rightarrow> unit_of_properties ovps s
         | _ \<Rightarrow> Inl TypeAssertion)
      else unit_of_properties ovps configuredUnit)"

fun unit_of_overrides :: "Override list \<Rightarrow> string \<Rightarrow> panic + string" where
  "unit_of_overrides [] configuredUnit = Inr configuredUnit"
| "unit_of_overrides (override # overrides) configuredUnit =
     (if length (Override_OverrideProperties override) > 0 then
        (case unit_of_properties (Override_OverrideProperties override) configuredUnit of
           Inl pa \<Rightarrow> Inl pa
         | Inr configuredUnit' \<Rightarrow> unit_of_overrides overrides configuredUnit')
      else unit_of_overrides overrides configuredUnit)"

definition getConfiguredUnit :: "Panel \<Rightarrow> panic + string" where
  "getConfiguredUnit p =
     (case (case Panel_FieldConfig p of
              Some fc \<Rightarrow>
                if length (FieldConfig_Overrides fc) > 0
                then unit_of_overrides (FieldConfig_Overrides fc) ''''
                else Inr ''''
            | None \<Rightarrow> Inr '''') of
        Inl pa \<Rightarrow> Inl pa
      | Inr configuredUnit \<Rightarrow>
          (case Panel_FieldConfig p of
             Some fc \<Rightarrow>
               if configuredUnit = '''' \<and> Defaults_Unit (FieldConfig_Defaults fc) \<noteq> ''''
               then Inr (Defaults_Unit (FieldConfig_Defaults fc))
               else Inr configuredUnit
           | None \<Rightarrow> Inr configuredUnit))"

text \<open>
  \<^verbatim>\<open>func getValueMappings(p Panel) (any, error)\<close>. The loops return at the first
  property whose id is "mappings" and whose value is not nil: \<open>Some v\<close> is that return,
  \<open>None\<close> is a loop that ran to its end. After the loops the raw default mappings, when
  not nil, are decoded into \<^verbatim>\<open>valueMappings\<close>, and the function returns that variable
  with the library's error or with nil.
\<close>

fun mappings_of_properties :: "any OverrideProperty list \<Rightarrow> any option" where
  "mappings_of_properties [] = None"
| "mappings_of_properties (ovp # ovps) =
     (if OverrideProperty_Id ovp = ''mappings'' \<and> OverrideProperty_Value ovp \<noteq> ANil
      then Some (OverrideProperty_Value ovp)
      else mappings_of_properties ovps)"

fun mappings_of_overrides :: "Override list \<Rightarrow> any option" where
  "mappings_of_overrides [] = None"
| "mappings_of_overrides (override # overrides) =
     (if length (Override_OverrideProperties override) > 0 then
        (case mappings_of_properties (Override_OverrideProperties override) of
           Some v \<Rightarrow> Some v
         | None \<Rightarrow> mappings_of_overrides overrides)
      else mappings_of_overrides overrides)"

definition getValueMappings :: "any json_Unmarshal \<Rightarrow> Panel \<Rightarrow> any \<times> json_error option" where
  "getValueMappings unmarshal p =
     (case (case Panel_FieldConfig p of
              Some fc \<Rightarrow>
                if length (FieldConfig_Overrides fc) > 0
                then mappings_of_overrides (FieldConfig_Overrides fc)
                else None
            | None \<Rightarrow> None) of
        Some v \<Rightarrow> (v, None)
      | None \<Rightarrow>
          (case Panel_FieldConfig p of
             Some fc \<Rightarrow>
               (case Defaults_Mappings (FieldConfig_Defaults fc) of
                  Some mappings \<Rightarrow>
                    (case unmarshal mappings of
                       (valueMappings, Some err) \<Rightarrow> (valueMappings, Some err)
                     | (valueMappings, None) \<Rightarrow> (valueMappings, None))
                | None \<Rightarrow> (ANil, None))
           | None \<Rightarrow> (ANil, None)))"

text \<open>
  The block guarded by \<^verbatim>\<open>p.Type == "stat"\<close>: the options are decoded, and the rule
  returns at once when that succeeded and the reduce options name fields.
\<close>

definition stat_reduces_fields :: "StatOptions json_Unmarshal \<Rightarrow> Panel \<Rightarrow> bool" where
  "stat_reduces_fields unmarshal_options p =
     (Panel_Type p = ''stat'' \<and>
      (case unmarshal_options (bytes (Panel_Options p)) of
         (opts, None) \<Rightarrow> hasReduceOptionsNonNumericFields (StatOptions_ReduceOptions opts)
       | (opts, Some err) \<Rightarrow> False))"

text \<open>
  The function \<^verbatim>\<open>fn\<close> of \<^verbatim>\<open>NewPanelUnitsRule\<close>. Its two library calls are the
  parameters: the decoding of the panel's options into \<^verbatim>\<open>StatOptions\<close> and the
  decoding of the default mappings into an empty interface. After a failed mappings
  decoding the error is added and control falls to the test
  \<^verbatim>\<open>valueMappings != nil\<close>; there is no return in between.
\<close>

definition NewPanelUnitsRule_fn ::
  "StatOptions json_Unmarshal \<Rightarrow> any json_Unmarshal \<Rightarrow> Dashboard \<Rightarrow> Panel \<Rightarrow>
     panic + PanelRuleResults" where
  "NewPanelUnitsRule_fn unmarshal_options unmarshal d p =
     (let r = [] in
      if Panel_Type p \<in> {panelTypeStat, panelTypeSingleStat, panelTypeGraph, panelTypeTimeTable,
                          panelTypeTimeSeries, panelTypeGauge} then
        if stat_reduces_fields unmarshal_options p then Inr r
        else
          (case getValueMappings unmarshal p of
             (valueMappings, err) \<Rightarrow>
               (let r = (case err of Some e \<Rightarrow> AddError d p e r | None \<Rightarrow> r) in
                if valueMappings \<noteq> ANil then Inr r
                else
                  (case getConfiguredUnit p of
                     Inl pa \<Rightarrow> Inl pa
                   | Inr configuredUnit \<Rightarrow>
                       if configuredUnit \<noteq> '''' \<and> range_validUnits validUnits configuredUnit
                       then Inr r
                       else Inr (AddError d p
                              (''has no or invalid units defined: ''
                                 @ [CHR 0x27] @ configuredUnit @ [CHR 0x27]) r))))
      else Inr r)"

text \<open>
  What \<^verbatim>\<open>json.Unmarshal\<close> stores in an empty interface for the documents used as
  examples: \<^verbatim>\<open>null\<close>, \<^verbatim>\<open>"ds-uid"\<close>, \<^verbatim>\<open>{"uid": "ds-uid"}\<close>, \<^verbatim>\<open>5\<close>,
  \<^verbatim>\<open>{"uid": 5}\<close> and \<^verbatim>\<open>{}\<close>. For \<^verbatim>\<open>[1e1000]\<close> the library stores the array,
  with nil for the number that does not fit a \<^verbatim>\<open>float64\<close>, and reports that
  number. Any other input of the table is the truncated document \<^verbatim>\<open>{\<close>, a syntax
  error that leaves the target untouched.
\<close>

definition json_Unmarshal_documents :: "any json_Unmarshal" where
  \<open>json_Unmarshal_documents buf =
     (if buf = ''null'' then (ANil, None)
      else if buf = ''"ds-uid"'' then (AString ''ds-uid'', None)
      else if buf = ''{"uid": "ds-uid"}'' then (AMap [(''uid'', AString ''ds-uid'')], None)
      else if buf = ''5'' then (AFloat64 5, None)
      else if buf = ''{"uid": 5}'' then (AMap [(''uid'', AFloat64 5)], None)
      else if buf = ''{}'' then (AMap [], None)
      else if buf = ''[1e1000]'' then
        (ASlice [ANil], Some ''json: cannot unmarshal number 1e1000 into Go value of type float64'')
      else (ANil, Some ''unexpected end of JSON input''))\<close>

text \<open>
  A template at its zero value, and the struct the library fills from the document
  \<^verbatim>\<open>{"type": "query", "query": q}\<close> for a given decoded query \<open>q\<close>.
\<close>

definition template_zero :: Template where
  "template_zero =
     \<lparr>Template_Name = '''', Template_Label = '''', Template_Type = '''', Template_Query = '''',
      Template_Datasource = '''', Template_Multi = False, Template_AllValue = '''',
      Template_Current = \<lparr>TemplateValue_Text = '''', TemplateValue_Value = ''''\<rparr>,
      Template_Options = [], Template_Refresh = 0\<rparr>"

definition template_query_raw :: "any \<Rightarrow> Template_raw" where
  "template_query_raw q =
     \<lparr>raw_Name = '''', raw_Label = '''', raw_Type = ''query'', raw_Query = q,
      raw_Datasource = '''', raw_Multi = False, raw_AllValue = '''',
      raw_Current = \<lparr>TemplateValue_Text = '''', TemplateValue_Value = ''''\<rparr>,
      raw_Options = [], raw_Refresh = 0\<rparr>"

text \<open>
  Panels for the examples: a panel of a given type with a given field configuration and
  nothing else, a field configuration from its default unit, default mappings and
  overrides, an override property for a unit, and a dashboard holding given panels.
\<close>

definition panel_of :: "string \<Rightarrow> FieldConfig option \<Rightarrow> Panel" where
  "panel_of ty fc = Panel 1 ''bar'' '''' [] '''' ty [] fc None"

definition field_config :: "string \<Rightarrow> RawMessage \<Rightarrow> any OverrideProperty list list \<Rightarrow> FieldConfig" where
  "field_config unit mappings overrides =
     \<lparr>FieldConfig_Defaults = \<lparr>Defaults_Unit = unit, Defaults_Mappings = mappings\<rparr>,
      FieldConfig_Overrides = map (\<lambda>ps. \<lparr>Override_OverrideProperties = ps\<rparr>) overrides\<rparr>"

definition unit_property :: "string \<Rightarrow> any OverrideProperty" where
  "unit_property u = \<lparr>OverrideProperty_Id = ''unit'', OverrideProperty_Value = AString u\<rparr>"

definition mappings_property :: "any \<Rightarrow> any OverrideProperty" where
  "mappings_property v = \<lparr>OverrideProperty_Id = ''mappings'', OverrideProperty_Value = v\<rparr>"

definition dashboard_of :: "Row list \<Rightarrow> Panel list \<Rightarrow> Dashboard" where
  "dashboard_of rows panels =
     \<lparr>Dashboard_Title = ''test'', Dashboard_Templating = \<lparr>Templating_List = []\<rparr>,
      Dashboard_Rows = rows, Dashboard_Panels = panels\<rparr>"

text \<open>
  The decoding of panel options into \<^verbatim>\<open>StatOptions\<close> for a panel without options:
  the input is empty and the library reports a syntax error.
\<close>

definition json_Unmarshal_no_options :: "StatOptions json_Unmarshal" where
  "json_Unmarshal_no_options buf =
     (\<lparr>StatOptions_ReduceOptions = \<lparr>ReduceOptions_Fields = ''''\<rparr>\<rparr>,
      Some ''unexpected end of JSON input'')"

text \<open>
  A target with a given expression and a given stale index, and a graph panel with a
  given id, targets and children, with a title, a datasource, a field configuration and
  options of its own.
\<close>

definition target_of :: "string \<Rightarrow> int \<Rightarrow> Target" where
  "target_of expr idx =
     \<lparr>Target_Idx = idx, Target_Expr = expr, Target_PanelId = 0, Target_RefId = '''',
      Target_LegendFormat = ''''\<rparr>"

definition panel_tree :: "int \<Rightarrow> Target list \<Rightarrow> Panel list \<Rightarrow> Panel" where
  "panel_tree i targets children =
     Panel i ''panel'' ''a graph'' targets ''ds-uid'' ''graph'' children
       (Some (field_config ''short'' None [[unit_property ''bytes'']])) (Some ''{}'')"

section \<open>Facts about the loops\<close>

lemma fold_append_concat:
  "fold (\<lambda>x acc. acc @ f x) xs acc = acc @ concat (map f xs)"
  by (induction xs arbitrary: acc) simp_all

lemma Panel_GetPanels_preorder: "Panel_GetPanels p = preorder p"
proof (induction p)
  case (Panel i t d ts ds ty ps fc opts)
  then have "map Panel_GetPanels ps = map preorder ps" by simp
  then have "concat (map Panel_GetPanels ps) = concat (map preorder ps)" by (rule arg_cong)
  then show ?case by (simp add: fold_append_concat cong: map_cong)
qed

lemma Row_GetPanels_preorder: "Row_GetPanels r = concat (map preorder (Row_Panels r))"
proof -
  show ?thesis
    by (simp add: Row_GetPanels_def fold_append_concat Panel_GetPanels_preorder)
qed

lemma assign_Idx_length: "length (assign_Idx k ts) = length ts"
  by (induction ts arbitrary: k) simp_all

lemma assign_Idx_nth:
  "ti < length ts \<Longrightarrow> assign_Idx k ts ! ti = (ts ! ti)\<lparr>Target_Idx := int (k + ti)\<rparr>"
proof (induction ts arbitrary: k ti)
  case Nil
  then show ?case by simp
next
  case (Cons a ts)
  then show ?case by (cases ti) simp_all
qed

lemma patch_Idx_Targets: "Panel_Targets (patch_Idx q) = assign_Idx 0 (Panel_Targets q)"
  by (cases q) simp

lemma unit_of_properties_append:
  "unit_of_properties (xs @ ys) cu =
     (case unit_of_properties xs cu of Inl pa \<Rightarrow> Inl pa | Inr cu' \<Rightarrow> unit_of_properties ys cu')"
  by (induction xs arbitrary: cu) (simp_all split: any.splits)

lemma unit_of_overrides_concat:
  "unit_of_overrides ovs cu =
     unit_of_properties (concat (map Override_OverrideProperties ovs)) cu"
  by (induction ovs arbitrary: cu) (simp_all add: unit_of_properties_append split: sum.splits)

lemma unit_of_properties_strings:
  "\<forall>x\<in>set xs. OverrideProperty_Id x = ''unit'' \<longrightarrow> (\<exists>s. OverrideProperty_Value x = AString s)
     \<Longrightarrow> \<exists>c. unit_of_properties xs cu = Inr c"
  by (induction xs arbitrary: cu) auto

lemma unit_of_properties_no_unit:
  "\<forall>x\<in>set xs. OverrideProperty_Id x \<noteq> ''unit'' \<Longrightarrow> unit_of_properties xs cu = Inr cu"
  by (induction xs arbitrary: cu) auto

lemma unit_of_properties_last:
  assumes "\<forall>x\<in>set pre. OverrideProperty_Id x = ''unit'' \<longrightarrow> (\<exists>s. OverrideProperty_Value x = AString s)"
    and "OverrideProperty_Id ovp = ''unit''" and "OverrideProperty_Value ovp = AString u"
    and "\<forall>x\<in>set post. OverrideProperty_Id x \<noteq> ''unit''"
  shows "unit_of_properties (pre @ ovp # post) cu = Inr u"
proof -
  obtain c where "unit_of_properties pre cu = Inr c"
    using unit_of_properties_strings [OF assms(1)] by blast
  then show ?thesis
    using assms(2-4) by (simp add: unit_of_properties_append unit_of_properties_no_unit)
qed

lemma mappings_of_properties_append:
  "mappings_of_properties (xs @ ys) =
     (case mappings_of_properties xs of Some v \<Rightarrow> Some v | None \<Rightarrow> mappings_of_properties ys)"
  by (induction xs) simp_all

lemma mappings_of_overrides_concat:
  "mappings_of_overrides ovs = mappings_of_properties (concat (map Override_OverrideProperties ovs))"
  by (induction ovs) (simp_all add: mappings_of_properties_append split: option.splits)

lemma mappings_of_properties_none:
  "\<forall>x\<in>set xs. \<not> (OverrideProperty_Id x = ''mappings'' \<and> OverrideProperty_Value x \<noteq> ANil)
     \<Longrightarrow> mappings_of_properties xs = None"
  by (induction xs) auto

lemma empty_not_valid: "\<not> range_validUnits validUnits ''''"
  by code_simp

lemma celsius_valid: "range_validUnits validUnits ''celsius''"
  by code_simp

lemma xyz_not_valid: "\<not> range_validUnits validUnits ''xyz''"
  by code_simp

lemma bytes_valid: "range_validUnits validUnits ''bytes''"
  by code_simp

lemma overrides_nonempty:
  "concat (map Override_OverrideProperties ovs) = pre @ ovp # post \<Longrightarrow> length ovs > 0"
  by (cases ovs) simp_all

lemma getConfiguredUnit_last:
  assumes "Panel_FieldConfig p = Some fc"
    and "concat (map Override_OverrideProperties (FieldConfig_Overrides fc)) = pre @ ovp # post"
    and "\<forall>x\<in>set pre. OverrideProperty_Id x = ''unit'' \<longrightarrow> (\<exists>s. OverrideProperty_Value x = AString s)"
    and "OverrideProperty_Id ovp = ''unit''" and "OverrideProperty_Value ovp = AString u"
    and "\<forall>x\<in>set post. OverrideProperty_Id x \<noteq> ''unit''"
  shows "getConfiguredUnit p =
           Inr (if u = '''' then Defaults_Unit (FieldConfig_Defaults fc) else u)"
proof -
  have "unit_of_overrides (FieldConfig_Overrides fc) '''' = Inr u"
    using unit_of_properties_last [OF assms(3-6)] assms(2)
    by (simp add: unit_of_overrides_concat)
  then show ?thesis
    using assms(1) overrides_nonempty [OF assms(2)]
    by (simp add: getConfiguredUnit_def)
qed

lemma getValueMappings_first:
  assumes "Panel_FieldConfig p = Some fc"
    and "concat (map Override_OverrideProperties (FieldConfig_Overrides fc)) = pre @ ovp # post"
    and "\<forall>x\<in>set pre. \<not> (OverrideProperty_Id x = ''mappings'' \<and> OverrideProperty_Value x \<noteq> ANil)"
    and "OverrideProperty_Id ovp = ''mappings''" and "OverrideProperty_Value ovp \<noteq> ANil"
  shows "getValueMappings unmarshal p = (OverrideProperty_Value ovp, None)"
proof -
  have "mappings_of_overrides (FieldConfig_Overrides fc) = Some (OverrideProperty_Value ovp)"
    using assms(2,4,5) mappings_of_properties_none [OF assms(3)]
    by (simp add: mappings_of_overrides_concat mappings_of_properties_append)
  then show ?thesis
    using assms(1) overrides_nonempty [OF assms(2)]
    by (simp add: getValueMappings_def)
qed

lemma fn_after_mappings:
  assumes "Panel_Type p \<in> {panelTypeStat, panelTypeSingleStat, panelTypeGraph, panelTypeTimeTable,
                          panelTypeTimeSeries, panelTypeGauge}"
    and "\<not> stat_reduces_fields unmarshal_options p"
    and "getValueMappings unmarshal p = (v, err)"
  shows "NewPanelUnitsRule_fn unmarshal_options unmarshal d p =
           (let r = (case err of Some e \<Rightarrow> AddError d p e [] | None \<Rightarrow> []) in
            if v \<noteq> ANil then Inr r
            else
              (case getConfiguredUnit p of
                 Inl pa \<Rightarrow> Inl pa
               | Inr configuredUnit \<Rightarrow>
                   if range_validUnits validUnits configuredUnit
                   then Inr r
                   else Inr (AddError d p
                          (''has no or invalid units defined: ''
                             @ [CHR 0x27] @ configuredUnit @ [CHR 0x27]) r)))"
proof -
  have "(cu \<noteq> '''' \<and> range_validUnits validUnits cu) = range_validUnits validUnits cu" for cu
    using empty_not_valid by auto
  then show ?thesis
    using assms unfolding NewPanelUnitsRule_fn_def Let_def
    by (simp split: sum.splits)
qed

lemma short_valid: "range_validUnits validUnits ''short''"
  by code_simp

section \<open>Datasource: the three accepted shapes\<close>

text \<open>
  C5. Decoding a Datasource accepts exactly three shapes of the decoded value: nil (JSON
  null) gives the empty string, a string gives itself, and an object whose "uid" entry
  is a string gives that uid. Every other outcome of the library call (an error of the
  library, a bool, a number, an array, an object without "uid" or with a "uid" that is
  not a string) returns an error and leaves the receiver as it was.
\<close>

theorem Datasource_UnmarshalJSON_shapes:
  "(unmarshal buf = (ANil, None) \<longrightarrow>
      Datasource_UnmarshalJSON unmarshal d buf = ('''', None)) \<and>
   (unmarshal buf = (AString s, None) \<longrightarrow>
      Datasource_UnmarshalJSON unmarshal d buf = (s, None)) \<and>
   (unmarshal buf = (AMap m, None) \<and> map_of m ''uid'' = Some (AString u) \<longrightarrow>
      Datasource_UnmarshalJSON unmarshal d buf = (u, None)) \<and>
   (\<not> (unmarshal buf = (ANil, None) \<or>
        (\<exists>s. unmarshal buf = (AString s, None)) \<or>
        (\<exists>m u. unmarshal buf = (AMap m, None) \<and> map_of m ''uid'' = Some (AString u))) \<longrightarrow>
      (\<exists>e. Datasource_UnmarshalJSON unmarshal d buf = (d, Some e)))"
proof (intro conjI impI)
  assume "unmarshal buf = (ANil, None)"
  then show "Datasource_UnmarshalJSON unmarshal d buf = ('''', None)"
    by (simp add: Datasource_UnmarshalJSON_def)
next
  assume "unmarshal buf = (AString s, None)"
  then show "Datasource_UnmarshalJSON unmarshal d buf = (s, None)"
    by (simp add: Datasource_UnmarshalJSON_def)
next
  assume "unmarshal buf = (AMap m, None) \<and> map_of m ''uid'' = Some (AString u)"
  then show "Datasource_UnmarshalJSON unmarshal d buf = (u, None)"
    by (simp add: Datasource_UnmarshalJSON_def)
next
  assume other: "\<not> (unmarshal buf = (ANil, None) \<or>
        (\<exists>s. unmarshal buf = (AString s, None)) \<or>
        (\<exists>m u. unmarshal buf = (AMap m, None) \<and> map_of m ''uid'' = Some (AString u)))"
  obtain raw err where r: "unmarshal buf = (raw, err)"
    by (cases "unmarshal buf")
  show "\<exists>e. Datasource_UnmarshalJSON unmarshal d buf = (d, Some e)"
  proof (cases err)
    case (Some e)
    with r show ?thesis by (simp add: Datasource_UnmarshalJSON_def)
  next
    case None
    with r other show ?thesis
      by (cases raw)
        (auto simp: Datasource_UnmarshalJSON_def split: option.splits any.splits)
  qed
qed

theorem Datasource_UnmarshalJSON_shapes_witness:
  \<open>Datasource_UnmarshalJSON json_Unmarshal_documents ''old'' ''null'' = ('''', None) \<and>
   Datasource_UnmarshalJSON json_Unmarshal_documents ''old'' ''"ds-uid"'' = (''ds-uid'', None) \<and>
   Datasource_UnmarshalJSON json_Unmarshal_documents ''old'' ''{"uid": "ds-uid"}'' =
     (''ds-uid'', None) \<and>
   (\<exists>e. Datasource_UnmarshalJSON json_Unmarshal_documents ''old'' ''5'' = (''old'', Some e)) \<and>
   (\<exists>e. Datasource_UnmarshalJSON json_Unmarshal_documents ''old'' ''{"uid": 5}'' =
     (''old'', Some e)) \<and>
   (\<exists>e. Datasource_UnmarshalJSON json_Unmarshal_documents ''old'' ''{}'' = (''old'', Some e)) \<and>
   (\<exists>e. Datasource_UnmarshalJSON json_Unmarshal_documents ''old'' ''{'' = (''old'', Some e))\<close>
  using
    Datasource_UnmarshalJSON_shapes [where unmarshal = json_Unmarshal_documents
      and buf = "''null''" and d = "''old''"]
    Datasource_UnmarshalJSON_shapes [where unmarshal = json_Unmarshal_documents
      and buf = \<open>''"ds-uid"''\<close> and d = "''old''" and s = "''ds-uid''"]
    Datasource_UnmarshalJSON_shapes [where unmarshal = json_Unmarshal_documents
      and buf = \<open>''{"uid": "ds-uid"}''\<close> and d = "''old''"
      and m = "[(''uid'', AString ''ds-uid'')]" and u = "''ds-uid''"]
    Datasource_UnmarshalJSON_shapes [where unmarshal = json_Unmarshal_documents
      and buf = "''5''" and d = "''old''"]
    Datasource_UnmarshalJSON_shapes [where unmarshal = json_Unmarshal_documents
      and buf = \<open>''{"uid": 5}''\<close> and d = "''old''"]
    Datasource_UnmarshalJSON_shapes [where unmarshal = json_Unmarshal_documents
      and buf = "''{}''" and d = "''old''"]
    Datasource_UnmarshalJSON_shapes [where unmarshal = json_Unmarshal_documents
      and buf = "''{''" and d = "''old''"]
  by (simp add: json_Unmarshal_documents_def)

section \<open>Template queries\<close>

text \<open>
  The accepted shapes of a template's query: with a type other than "adhoc" and
  "custom", a string is taken verbatim, the string under the "query" key of an object is
  extracted, and nil, a bool, a number or an array is an error; with type "adhoc" or
  "custom" the query is not looked at and the receiver keeps the query it had.
\<close>

lemma Template_UnmarshalJSON_accepted:
  assumes "unmarshal buf = (raw, None)"
  shows "raw_Type raw \<noteq> ''adhoc'' \<and> raw_Type raw \<noteq> ''custom'' \<and> raw_Query raw = AString s \<longrightarrow>
           (\<exists>t'. Template_UnmarshalJSON unmarshal t buf = Inr (t', None) \<and> Template_Query t' = s)"
    and "raw_Type raw \<noteq> ''adhoc'' \<and> raw_Type raw \<noteq> ''custom'' \<and> raw_Query raw = AMap m \<and>
         map_of m ''query'' = Some (AString s) \<longrightarrow>
           (\<exists>t'. Template_UnmarshalJSON unmarshal t buf = Inr (t', None) \<and> Template_Query t' = s)"
    and "raw_Type raw \<noteq> ''adhoc'' \<and> raw_Type raw \<noteq> ''custom'' \<and>
         (\<forall>s. raw_Query raw \<noteq> AString s) \<and> (\<forall>m. raw_Query raw \<noteq> AMap m) \<longrightarrow>
           (\<exists>t' e. Template_UnmarshalJSON unmarshal t buf = Inr (t', Some e))"
    and "raw_Type raw = ''adhoc'' \<or> raw_Type raw = ''custom'' \<longrightarrow>
           (\<exists>t'. Template_UnmarshalJSON unmarshal t buf = Inr (t', None) \<and>
                 Template_Query t' = Template_Query t)"
  using assms
  by (auto simp: Template_UnmarshalJSON_def Let_def split: any.splits)

text \<open>
  C4. The claim holds for the shapes above, but not for an object whose "query" key is
  absent or not a string: there the claim promises a decode error, and the
  single-value assertion \<^verbatim>\<open>v["query"].(string)\<close> panics instead. The decoder of
  Datasource checks the same two conditions with the two-value forms and returns an
  error for each.
\<close>

theorem Template_UnmarshalJSON_query_panics:
  assumes "unmarshal buf = (raw, None)"
    and "raw_Type raw \<noteq> ''adhoc''" and "raw_Type raw \<noteq> ''custom''"
    and "raw_Query raw = AMap m"
    and "\<forall>s. map_of m ''query'' \<noteq> Some (AString s)"
  shows "Template_UnmarshalJSON unmarshal t buf = Inl TypeAssertion"
proof (cases "map_of m ''query''")
  case None
  with assms show ?thesis
    by (simp add: Template_UnmarshalJSON_def)
next
  case (Some q)
  with assms(5) have "\<forall>s. q \<noteq> AString s" by simp
  with Some assms(1-4) show ?thesis
    by (cases q) (simp_all add: Template_UnmarshalJSON_def)
qed

theorem Template_UnmarshalJSON_query_panics_witness:
  "Template_UnmarshalJSON (\<lambda>buf. (template_query_raw (AMap []), None))
     template_zero ''{\"type\": \"query\", \"query\": {}}'' = Inl TypeAssertion \<and>
   Template_UnmarshalJSON (\<lambda>buf. (template_query_raw (AMap [(''query'', AFloat64 5)]), None))
     template_zero
     ''{\"type\": \"query\", \"query\": {\"query\": 5}}'' = Inl TypeAssertion"
  using
    Template_UnmarshalJSON_query_panics [where
      unmarshal = "\<lambda>buf. (template_query_raw (AMap []), None)"
      and buf = "''{\"type\": \"query\", \"query\": {}}''"
      and raw = "template_query_raw (AMap [])"
      and m = "[]" and t = template_zero]
    Template_UnmarshalJSON_query_panics [where
      unmarshal = "\<lambda>buf. (template_query_raw (AMap [(''query'', AFloat64 5)]), None)"
      and buf = "''{\"type\": \"query\", \"query\": {\"query\": 5}}''"
      and raw = "template_query_raw (AMap [(''query'', AFloat64 5)])"
      and m = "[(''query'', AFloat64 5)]" and t = template_zero]
  by (simp add: template_query_raw_def)

section \<open>Template values\<close>

text \<open>
  The switch on one key: a string is taken verbatim, an array whose first element is a
  string gives that element, and nil, a bool, a number or an object is an error.
\<close>

lemma decode_key_accepted:
  "decode_key field (AString s) = Inr (Inr s)"
  "decode_key field (ASlice (AString s # ys)) = Inr (Inr s)"
  "(\<forall>s. x \<noteq> AString s) \<and> (\<forall>xs. x \<noteq> ASlice xs) \<Longrightarrow>
     decode_key field x = Inr (Inl (InvalidType field x))"
  by (cases x; simp add: decode_key_def)+

lemma TemplateValue_UnmarshalJSON_absent:
  "unmarshal buf = (raw, None) \<Longrightarrow> map_of raw ''text'' = None \<Longrightarrow>
     map_of raw ''value'' = None \<Longrightarrow>
     TemplateValue_UnmarshalJSON unmarshal t buf = Inr (t, None)"
  by (simp add: TemplateValue_UnmarshalJSON_def)

text \<open>
  C9. A string under "text" or "value" is taken verbatim, the first element of an array
  is taken when it is a string, nil, a bool, a number or an object is an error, and an
  absent key leaves the field alone. The claim promises a decode error for an empty
  array and for an array whose first element is not a string; the code indexes and
  asserts without a check and panics on both, under either key.
\<close>

theorem TemplateValue_UnmarshalJSON_array_panics:
  assumes "unmarshal buf = (raw, None)"
  shows "(map_of raw ''text'' = Some (ASlice []) \<longrightarrow>
            TemplateValue_UnmarshalJSON unmarshal t buf = Inl IndexOutOfRange) \<and>
         (map_of raw ''text'' = Some (ASlice (y # ys)) \<and> (\<forall>s. y \<noteq> AString s) \<longrightarrow>
            TemplateValue_UnmarshalJSON unmarshal t buf = Inl TypeAssertion) \<and>
         (map_of raw ''text'' = None \<and> map_of raw ''value'' = Some (ASlice []) \<longrightarrow>
            TemplateValue_UnmarshalJSON unmarshal t buf = Inl IndexOutOfRange) \<and>
         (map_of raw ''text'' = None \<and> map_of raw ''value'' = Some (ASlice (y # ys)) \<and>
          (\<forall>s. y \<noteq> AString s) \<longrightarrow>
            TemplateValue_UnmarshalJSON unmarshal t buf = Inl TypeAssertion)"
proof -
  have first_not_string: "decode_key f (ASlice (y # ys)) = Inl TypeAssertion"
    if "\<forall>s. y \<noteq> AString s" for f
    using that by (cases y) (simp_all add: decode_key_def)
  have empty: "decode_key f (ASlice []) = Inl IndexOutOfRange" for f
    by (simp add: decode_key_def)
  show ?thesis
    using assms
    by (simp add: TemplateValue_UnmarshalJSON_def first_not_string empty)
qed

theorem TemplateValue_UnmarshalJSON_array_panics_witness:
  "TemplateValue_UnmarshalJSON (\<lambda>buf. ([(''text'', ASlice [])], None))
     \<lparr>TemplateValue_Text = '''', TemplateValue_Value = ''''\<rparr> ''{\"text\": []}'' =
     Inl IndexOutOfRange \<and>
   TemplateValue_UnmarshalJSON (\<lambda>buf. ([(''value'', ASlice [AFloat64 1])], None))
     \<lparr>TemplateValue_Text = '''', TemplateValue_Value = ''''\<rparr> ''{\"value\": [1]}'' =
     Inl TypeAssertion"
  using
    TemplateValue_UnmarshalJSON_array_panics [where
      unmarshal = "\<lambda>buf. ([(''text'', ASlice [])], None)"
      and buf = "''{\"text\": []}''" and raw = "[(''text'', ASlice [])]"
      and t = "\<lparr>TemplateValue_Text = '''', TemplateValue_Value = ''''\<rparr>"]
    TemplateValue_UnmarshalJSON_array_panics [where
      unmarshal = "\<lambda>buf. ([(''value'', ASlice [AFloat64 1])], None)"
      and buf = "''{\"value\": [1]}''" and raw = "[(''value'', ASlice [AFloat64 1])]"
      and t = "\<lparr>TemplateValue_Text = '''', TemplateValue_Value = ''''\<rparr>"
      and y = "AFloat64 1" and ys = "[]"]
  by simp

section \<open>Override properties\<close>

text \<open>
  C10. Decoding an OverrideProperty returns no error whatever the two library calls
  answer, and returns the receiver as it was: a receiver at its zero value (empty id,
  empty value) stays there, also when the first call decoded an id and a value.
\<close>

theorem OverrideProperty_UnmarshalJSON_noop:
  "OverrideProperty_UnmarshalJSON unmarshal_string unmarshal_int ov buf = (ov, None) \<and>
   OverrideProperty_UnmarshalJSON unmarshal_string unmarshal_int
     \<lparr>OverrideProperty_Id = '''', OverrideProperty_Value = ''''\<rparr> buf =
     (\<lparr>OverrideProperty_Id = '''', OverrideProperty_Value = ''''\<rparr>, None)"
proof -
  have "OverrideProperty_UnmarshalJSON unmarshal_string unmarshal_int x buf = (x, None)" for x
  proof (cases "unmarshal_string buf")
    case (Pair raw err)
    show ?thesis
    proof (cases err)
      case None
      with Pair show ?thesis by (simp add: OverrideProperty_UnmarshalJSON_def)
    next
      case (Some e)
      with Pair show ?thesis
        by (cases "unmarshal_int buf")
          (auto simp: OverrideProperty_UnmarshalJSON_def split: option.splits)
    qed
  qed
  then show ?thesis by simp
qed

theorem OverrideProperty_UnmarshalJSON_noop_witness:
  "OverrideProperty_UnmarshalJSON
     (\<lambda>buf. (\<lparr>OverrideProperty_Id = ''unit'', OverrideProperty_Value = ''bytes''\<rparr>, None))
     (\<lambda>buf. (\<lparr>OverrideProperty_Id = ''unit'', OverrideProperty_Value = 0\<rparr>,
              Some ''json: cannot unmarshal string into Go struct field .value of type int''))
     \<lparr>OverrideProperty_Id = '''', OverrideProperty_Value = ''''\<rparr>
     ''{\"id\": \"unit\", \"value\": \"bytes\"}'' =
     (\<lparr>OverrideProperty_Id = '''', OverrideProperty_Value = ''''\<rparr>, None)"
  using OverrideProperty_UnmarshalJSON_noop [where
      unmarshal_string =
        "\<lambda>buf. (\<lparr>OverrideProperty_Id = ''unit'', OverrideProperty_Value = ''bytes''\<rparr>, None)"
      and unmarshal_int =
        "\<lambda>buf. (\<lparr>OverrideProperty_Id = ''unit'', OverrideProperty_Value = 0\<rparr>,
              Some ''json: cannot unmarshal string into Go struct field .value of type int'')"
      and buf = "''{\"id\": \"unit\", \"value\": \"bytes\"}''"]
  by simp


section \<open>Resolution of the unit\<close>

text \<open>
  C1, as the specification words it: whenever a panel carries an override property with
  id "unit" and a recognized string value, that value is the resolved unit. This fails on
  a panel with two overrides, the first setting "bytes" and the second "s", and default
  unit "short": the property with "bytes" is there and is recognized, and the resolved
  unit is "s". The loop of \<^verbatim>\<open>getConfiguredUnit\<close> assigns at every unit property, so the
  last one decides; when the last one is the empty string, the default unit is taken in
  spite of the override with "bytes".
\<close>

theorem getConfiguredUnit_override_counterexample:
  "unit_property ''bytes'' \<in>
     set (concat (map Override_OverrideProperties
       (FieldConfig_Overrides
          (field_config ''short'' None [[unit_property ''bytes''], [unit_property ''s'']])))) \<and>
   OverrideProperty_Id (unit_property ''bytes'') = ''unit'' \<and>
   OverrideProperty_Value (unit_property ''bytes'') = AString ''bytes'' \<and>
   range_validUnits validUnits ''bytes'' \<and>
   getConfiguredUnit (panel_of ''gauge''
     (Some (field_config ''short'' None [[unit_property ''bytes''], [unit_property ''s'']]))) =
     Inr ''s'' \<and>
   getConfiguredUnit (panel_of ''gauge''
     (Some (field_config ''short'' None [[unit_property ''bytes''], [unit_property ''s'']]))) \<noteq>
     Inr ''bytes'' \<and>
   getConfiguredUnit (panel_of ''gauge''
     (Some (field_config ''short'' None [[unit_property ''bytes''], [unit_property '''']]))) =
     Inr ''short''"
  using bytes_valid
  by (simp add: getConfiguredUnit_def panel_of_def field_config_def unit_property_def)

text \<open>
  C1, amended. When the last override property with id "unit", in the order of the
  overrides and of the properties inside them, has a string value that is a recognized
  unit, and the unit properties before it have string values, the resolved unit is that
  value, whatever the default unit is: the override wins over the default.
\<close>

theorem getConfiguredUnit_override_wins:
  assumes "Panel_FieldConfig p = Some fc"
    and "concat (map Override_OverrideProperties (FieldConfig_Overrides fc)) = pre @ ovp # post"
    and "\<forall>x\<in>set pre. OverrideProperty_Id x = ''unit'' \<longrightarrow> (\<exists>s. OverrideProperty_Value x = AString s)"
    and "OverrideProperty_Id ovp = ''unit''" and "OverrideProperty_Value ovp = AString u"
    and "range_validUnits validUnits u"
    and "\<forall>x\<in>set post. OverrideProperty_Id x \<noteq> ''unit''"
  shows "getConfiguredUnit p = Inr u"
proof -
  from assms(6) have "u \<noteq> ''''" using empty_not_valid by auto
  then show ?thesis
    using getConfiguredUnit_last [OF assms(1-5) assms(7)] by simp
qed

theorem getConfiguredUnit_override_wins_witness:
  "getConfiguredUnit (panel_of ''gauge''
     (Some (field_config ''short'' None [[unit_property ''bytes'']]))) = Inr ''bytes'' \<and>
   range_validUnits validUnits ''short''"
  using getConfiguredUnit_override_wins [where
      p = "panel_of ''gauge'' (Some (field_config ''short'' None [[unit_property ''bytes'']]))"
      and fc = "field_config ''short'' None [[unit_property ''bytes'']]"
      and pre = "[]" and ovp = "unit_property ''bytes''" and post = "[]" and u = "''bytes''"]
    bytes_valid short_valid
  by (simp add: panel_of_def field_config_def unit_property_def)

section \<open>Order of the overrides\<close>

text \<open>
  C2, as the specification words it: with two or more unit properties the earliest one
  gives the resolved unit. On a panel whose only override holds the unit properties
  "bytes" and "s" in this order, the earliest is "bytes" and the resolved unit is "s".
\<close>

theorem override_order_counterexample:
  "hd (filter (\<lambda>x. OverrideProperty_Id x = ''unit'')
     (concat (map Override_OverrideProperties
       (FieldConfig_Overrides
          (field_config '''' None [[unit_property ''bytes'', unit_property ''s'']]))))) =
     \<lparr>OverrideProperty_Id = ''unit'', OverrideProperty_Value = AString ''bytes''\<rparr> \<and>
   getConfiguredUnit (panel_of ''graph''
     (Some (field_config '''' None [[unit_property ''bytes'', unit_property ''s'']]))) =
     Inr ''s'' \<and>
   getConfiguredUnit (panel_of ''graph''
     (Some (field_config '''' None [[unit_property ''bytes'', unit_property ''s'']]))) \<noteq>
     Inr ''bytes''"
  by (simp add: getConfiguredUnit_def panel_of_def field_config_def unit_property_def)

text \<open>
  C2, amended. The overrides are scanned in order, and so are the properties of each.
  For the unit the last property with id "unit" wins: when the unit properties before
  it have string values, the resolved unit is its value, or the default unit when that
  value is the empty string. For the mappings the first property with id "mappings" and
  a value other than nil wins, and resolution returns its value without an error.
\<close>

theorem override_order:
  assumes "Panel_FieldConfig p = Some fc"
    and "concat (map Override_OverrideProperties (FieldConfig_Overrides fc)) = pre @ ovp # post"
  shows "(OverrideProperty_Id ovp = ''unit'' \<and> OverrideProperty_Value ovp = AString u \<and>
          (\<forall>x\<in>set post. OverrideProperty_Id x \<noteq> ''unit'') \<and>
          (\<forall>x\<in>set pre. OverrideProperty_Id x = ''unit'' \<longrightarrow> (\<exists>s. OverrideProperty_Value x = AString s)) \<longrightarrow>
            getConfiguredUnit p =
              Inr (if u = '''' then Defaults_Unit (FieldConfig_Defaults fc) else u)) \<and>
         (OverrideProperty_Id ovp = ''mappings'' \<and> OverrideProperty_Value ovp \<noteq> ANil \<and>
          (\<forall>x\<in>set pre. \<not> (OverrideProperty_Id x = ''mappings'' \<and> OverrideProperty_Value x \<noteq> ANil)) \<longrightarrow>
            getValueMappings unmarshal p = (OverrideProperty_Value ovp, None))"
  using getConfiguredUnit_last [OF assms] getValueMappings_first [OF assms]
  by blast

theorem override_order_witness:
  "getConfiguredUnit (panel_of ''graph'' (Some (field_config ''short'' None
     [[unit_property ''bytes'', mappings_property ANil],
      [mappings_property (AString ''first''), unit_property ''s'',
       mappings_property (AString ''second'')]]))) = Inr ''s'' \<and>
   getValueMappings json_Unmarshal_documents (panel_of ''graph'' (Some (field_config ''short'' None
     [[unit_property ''bytes'', mappings_property ANil],
      [mappings_property (AString ''first''), unit_property ''s'',
       mappings_property (AString ''second'')]]))) = (AString ''first'', None)"
  using
    override_order [where
      p = "panel_of ''graph'' (Some (field_config ''short'' None
        [[unit_property ''bytes'', mappings_property ANil],
         [mappings_property (AString ''first''), unit_property ''s'',
          mappings_property (AString ''second'')]]))"
      and fc = "field_config ''short'' None
        [[unit_property ''bytes'', mappings_property ANil],
         [mappings_property (AString ''first''), unit_property ''s'',
          mappings_property (AString ''second'')]]"
      and pre = "[unit_property ''bytes'', mappings_property ANil,
                  mappings_property (AString ''first'')]"
      and ovp = "unit_property ''s''"
      and post = "[mappings_property (AString ''second'')]" and u = "''s''"]
    override_order [where
      p = "panel_of ''graph'' (Some (field_config ''short'' None
        [[unit_property ''bytes'', mappings_property ANil],
         [mappings_property (AString ''first''), unit_property ''s'',
          mappings_property (AString ''second'')]]))"
      and fc = "field_config ''short'' None
        [[unit_property ''bytes'', mappings_property ANil],
         [mappings_property (AString ''first''), unit_property ''s'',
          mappings_property (AString ''second'')]]"
      and pre = "[unit_property ''bytes'', mappings_property ANil]"
      and ovp = "mappings_property (AString ''first'')"
      and post = "[unit_property ''s'', mappings_property (AString ''second'')]"
      and unmarshal = json_Unmarshal_documents]
  by (simp add: panel_of_def field_config_def unit_property_def mappings_property_def)

section \<open>The rule on a panel\<close>




text \<open>
  C6. A gauge panel without value mappings whose resolved unit is "xyz" yields exactly
  one result, of severity Error, with the message "has no or invalid units defined:
  'xyz'"; the same panel with the resolved unit "celsius", which is in the catalogue,
  yields no result.
\<close>

theorem NewPanelUnitsRule_fn_gauge:
  assumes "Panel_Type p = ''gauge''"
    and "getValueMappings unmarshal p = (ANil, None)"
  shows "(getConfiguredUnit p = Inr ''xyz'' \<longrightarrow>
            NewPanelUnitsRule_fn unmarshal_options unmarshal d p =
              Inr [\<lparr>Result_Dashboard = d, Result_Panel = p, Result_Severity = Error,
                    Result_Message = ''has no or invalid units defined: 'xyz'' @ [CHR 0x27]\<rparr>]) \<and>
         (getConfiguredUnit p = Inr ''celsius'' \<longrightarrow>
            NewPanelUnitsRule_fn unmarshal_options unmarshal d p = Inr [])"
proof -
  have scope: "Panel_Type p \<in> {panelTypeStat, panelTypeSingleStat, panelTypeGraph,
      panelTypeTimeTable, panelTypeTimeSeries, panelTypeGauge}"
    using assms(1) by (simp add: panelTypeGauge_def)
  have stat: "\<not> stat_reduces_fields unmarshal_options p"
    using assms(1) by (simp add: stat_reduces_fields_def)
  show ?thesis
    using fn_after_mappings [OF scope stat assms(2), of d] celsius_valid xyz_not_valid
    by (simp add: AddError_def)
qed

theorem NewPanelUnitsRule_fn_gauge_witness:
  "NewPanelUnitsRule_fn json_Unmarshal_no_options json_Unmarshal_documents
     (dashboard_of [] [panel_of ''gauge'' (Some (field_config ''xyz'' None []))])
     (panel_of ''gauge'' (Some (field_config ''xyz'' None []))) =
     Inr [\<lparr>Result_Dashboard =
              dashboard_of [] [panel_of ''gauge'' (Some (field_config ''xyz'' None []))],
            Result_Panel = panel_of ''gauge'' (Some (field_config ''xyz'' None [])),
            Result_Severity = Error,
            Result_Message = ''has no or invalid units defined: 'xyz'' @ [CHR 0x27]\<rparr>] \<and>
   NewPanelUnitsRule_fn json_Unmarshal_no_options json_Unmarshal_documents
     (dashboard_of [] [panel_of ''gauge'' (Some (field_config ''celsius'' None []))])
     (panel_of ''gauge'' (Some (field_config ''celsius'' None []))) = Inr []"
  using
    NewPanelUnitsRule_fn_gauge [where
      p = "panel_of ''gauge'' (Some (field_config ''xyz'' None []))"
      and unmarshal_options = json_Unmarshal_no_options
      and unmarshal = json_Unmarshal_documents
      and d = "dashboard_of [] [panel_of ''gauge'' (Some (field_config ''xyz'' None []))]"]
    NewPanelUnitsRule_fn_gauge [where
      p = "panel_of ''gauge'' (Some (field_config ''celsius'' None []))"
      and unmarshal_options = json_Unmarshal_no_options
      and unmarshal = json_Unmarshal_documents
      and d = "dashboard_of [] [panel_of ''gauge'' (Some (field_config ''celsius'' None []))]"]
  by (simp add: getValueMappings_def getConfiguredUnit_def panel_of_def field_config_def)

text \<open>
  C7. When the value mappings of a panel resolve without an error to a value other than
  nil, from an override property or from the default mappings, the rule yields no
  result, whatever the type, the options and the unit of the panel.
\<close>

theorem NewPanelUnitsRule_fn_mappings_skip:
  assumes "getValueMappings unmarshal p = (v, None)" and "v \<noteq> ANil"
  shows "NewPanelUnitsRule_fn unmarshal_options unmarshal d p = Inr []"
  using assms unfolding NewPanelUnitsRule_fn_def Let_def
  by simp

theorem NewPanelUnitsRule_fn_mappings_skip_witness:
  "NewPanelUnitsRule_fn json_Unmarshal_no_options json_Unmarshal_documents (dashboard_of [] [])
     (panel_of ''gauge'' (Some (field_config ''xyz'' None
        [[mappings_property (ASlice [AMap [(''type'', AString ''value'')]])]]))) = Inr [] \<and>
   NewPanelUnitsRule_fn json_Unmarshal_no_options json_Unmarshal_documents (dashboard_of [] [])
     (panel_of ''timeseries'' (Some (field_config '''' (Some ''{}'') []))) = Inr []"
  using
    NewPanelUnitsRule_fn_mappings_skip [where
      p = "panel_of ''gauge'' (Some (field_config ''xyz'' None
        [[mappings_property (ASlice [AMap [(''type'', AString ''value'')]])]]))"
      and unmarshal_options = json_Unmarshal_no_options
      and unmarshal = json_Unmarshal_documents and d = "dashboard_of [] []"
      and v = "ASlice [AMap [(''type'', AString ''value'')]]"]
    NewPanelUnitsRule_fn_mappings_skip [where
      p = "panel_of ''timeseries'' (Some (field_config '''' (Some ''{}'') []))"
      and unmarshal_options = json_Unmarshal_no_options
      and unmarshal = json_Unmarshal_documents and d = "dashboard_of [] []"
      and v = "AMap []"]
  by (simp add: getValueMappings_def panel_of_def field_config_def mappings_property_def
      json_Unmarshal_documents_def)

section \<open>Flattening a dashboard\<close>

text \<open>
  C8. Flattening a dashboard yields the pre-order traversals of the panels of its rows,
  row after row, followed by the pre-order traversals of its top-level panels, each
  panel with the index loop applied; in every panel of the result each target carries
  its zero-based position in that panel's target list. A panel with the index loop
  applied is the panel it was in every field but the indices: it keeps its id, title,
  description, datasource, type, field configuration and options, its targets are the
  same targets in the same order with only the index replaced by the position, and its
  children are its children with the index loop applied.
\<close>

theorem Dashboard_GetPanels_preorder:
  "Dashboard_GetPanels d =
     map patch_Idx
       (concat (map preorder (concat (map Row_Panels (Dashboard_Rows d)))) @
        concat (map preorder (Dashboard_Panels d))) \<and>
   (\<forall>p \<in> set (Dashboard_GetPanels d). \<forall>ti < length (Panel_Targets p).
      Target_Idx (Panel_Targets p ! ti) = int ti) \<and>
   (\<forall>q. Panel_Id (patch_Idx q) = Panel_Id q \<and>
      Panel_Title (patch_Idx q) = Panel_Title q \<and>
      Panel_Description (patch_Idx q) = Panel_Description q \<and>
      Panel_Datasource (patch_Idx q) = Panel_Datasource q \<and>
      Panel_Type (patch_Idx q) = Panel_Type q \<and>
      Panel_FieldConfig (patch_Idx q) = Panel_FieldConfig q \<and>
      Panel_Options (patch_Idx q) = Panel_Options q \<and>
      Panel_Panels (patch_Idx q) = map patch_Idx (Panel_Panels q) \<and>
      length (Panel_Targets (patch_Idx q)) = length (Panel_Targets q) \<and>
      (\<forall>ti < length (Panel_Targets q).
         Panel_Targets (patch_Idx q) ! ti = (Panel_Targets q ! ti)\<lparr>Target_Idx := int ti\<rparr>))"
proof (intro conjI)
  have rows: "fold (\<lambda>row p. p @ Row_GetPanels row) rs acc =
      acc @ concat (map preorder (concat (map Row_Panels rs)))" for rs acc
    by (induction rs arbitrary: acc) (simp_all add: Row_GetPanels_preorder)
  have panels: "fold (\<lambda>panel p. p @ Panel_GetPanels panel) ps acc =
      acc @ concat (map preorder ps)" for ps acc
    by (induction ps arbitrary: acc) (simp_all add: Panel_GetPanels_preorder)
  show flat: "Dashboard_GetPanels d =
     map patch_Idx
       (concat (map preorder (concat (map Row_Panels (Dashboard_Rows d)))) @
        concat (map preorder (Dashboard_Panels d)))"
    unfolding Dashboard_GetPanels_def Let_def rows panels by simp
  show "\<forall>p \<in> set (Dashboard_GetPanels d). \<forall>ti < length (Panel_Targets p).
      Target_Idx (Panel_Targets p ! ti) = int ti"
  proof (intro ballI allI impI)
    fix p ti
    assume "p \<in> set (Dashboard_GetPanels d)" and ti: "ti < length (Panel_Targets p)"
    then obtain q where p: "p = patch_Idx q"
      unfolding flat by auto
    from ti have "ti < length (Panel_Targets q)"
      by (simp add: p patch_Idx_Targets assign_Idx_length)
    then show "Target_Idx (Panel_Targets p ! ti) = int ti"
      by (simp add: p patch_Idx_Targets assign_Idx_nth)
  qed
  show "\<forall>q. Panel_Id (patch_Idx q) = Panel_Id q \<and>
      Panel_Title (patch_Idx q) = Panel_Title q \<and>
      Panel_Description (patch_Idx q) = Panel_Description q \<and>
      Panel_Datasource (patch_Idx q) = Panel_Datasource q \<and>
      Panel_Type (patch_Idx q) = Panel_Type q \<and>
      Panel_FieldConfig (patch_Idx q) = Panel_FieldConfig q \<and>
      Panel_Options (patch_Idx q) = Panel_Options q \<and>
      Panel_Panels (patch_Idx q) = map patch_Idx (Panel_Panels q) \<and>
      length (Panel_Targets (patch_Idx q)) = length (Panel_Targets q) \<and>
      (\<forall>ti < length (Panel_Targets q).
         Panel_Targets (patch_Idx q) ! ti = (Panel_Targets q ! ti)\<lparr>Target_Idx := int ti\<rparr>)"
  proof
    fix q
    have fields: "Panel_Id (patch_Idx q) = Panel_Id q \<and>
      Panel_Title (patch_Idx q) = Panel_Title q \<and>
      Panel_Description (patch_Idx q) = Panel_Description q \<and>
      Panel_Datasource (patch_Idx q) = Panel_Datasource q \<and>
      Panel_Type (patch_Idx q) = Panel_Type q \<and>
      Panel_FieldConfig (patch_Idx q) = Panel_FieldConfig q \<and>
      Panel_Options (patch_Idx q) = Panel_Options q \<and>
      Panel_Panels (patch_Idx q) = map patch_Idx (Panel_Panels q)"
      by (cases q) simp
    then show "Panel_Id (patch_Idx q) = Panel_Id q \<and>
      Panel_Title (patch_Idx q) = Panel_Title q \<and>
      Panel_Description (patch_Idx q) = Panel_Description q \<and>
      Panel_Datasource (patch_Idx q) = Panel_Datasource q \<and>
      Panel_Type (patch_Idx q) = Panel_Type q \<and>
      Panel_FieldConfig (patch_Idx q) = Panel_FieldConfig q \<and>
      Panel_Options (patch_Idx q) = Panel_Options q \<and>
      Panel_Panels (patch_Idx q) = map patch_Idx (Panel_Panels q) \<and>
      length (Panel_Targets (patch_Idx q)) = length (Panel_Targets q) \<and>
      (\<forall>ti < length (Panel_Targets q).
         Panel_Targets (patch_Idx q) ! ti = (Panel_Targets q ! ti)\<lparr>Target_Idx := int ti\<rparr>)"
      by (simp add: patch_Idx_Targets assign_Idx_length assign_Idx_nth)
  qed
qed

theorem Dashboard_GetPanels_preorder_witness:
  "Dashboard_GetPanels
     (dashboard_of
        [\<lparr>Row_Panels = [panel_tree 1 [target_of ''a'' 9, target_of ''b'' 9] [],
                         panel_tree 2 [target_of ''c'' 5] []]\<rparr>]
        [panel_tree 3 [target_of ''d'' 4, target_of ''e'' 0] []]) =
     [panel_tree 1 [target_of ''a'' 0, target_of ''b'' 1] [],
      panel_tree 2 [target_of ''c'' 0] [],
      panel_tree 3 [target_of ''d'' 0, target_of ''e'' 1] []] \<and>
   Dashboard_GetPanels
     (dashboard_of []
        [panel_tree 1 []
           [panel_tree 2 [target_of ''a'' 3] [panel_tree 3 [] []],
            panel_tree 4 [target_of ''b'' 0, target_of ''c'' 0] []]]) =
     [panel_tree 1 []
        [panel_tree 2 [target_of ''a'' 0] [panel_tree 3 [] []],
         panel_tree 4 [target_of ''b'' 0, target_of ''c'' 1] []],
      panel_tree 2 [target_of ''a'' 0] [panel_tree 3 [] []],
      panel_tree 3 [] [],
      panel_tree 4 [target_of ''b'' 0, target_of ''c'' 1] []]"
  using
    Dashboard_GetPanels_preorder [of "dashboard_of
        [\<lparr>Row_Panels = [panel_tree 1 [target_of ''a'' 9, target_of ''b'' 9] [],
                         panel_tree 2 [target_of ''c'' 5] []]\<rparr>]
        [panel_tree 3 [target_of ''d'' 4, target_of ''e'' 0] []]"]
    Dashboard_GetPanels_preorder [of "dashboard_of []
        [panel_tree 1 []
           [panel_tree 2 [target_of ''a'' 3] [panel_tree 3 [] []],
            panel_tree 4 [target_of ''b'' 0, target_of ''c'' 0] []]]"]
  by (simp add: dashboard_of_def panel_tree_def target_of_def)


end
